theory Spec2Isabelle
  imports Complex_Main
begin

section \<open>Facial recognition service: data model\<close>

text \<open>
  The service of \<^verbatim>\<open>services/facial-recognition-service/main.py\<close> keeps one table
  \<^verbatim>\<open>facial_templates\<close> and answers four routes. The handlers are modelled as
  functions from the request and the store to a response and the store afterwards.

  Numbers. Python floats are modelled by \<open>pyfloat\<close>: a real number or one of the
  IEEE special values. Arithmetic on finite values is exact (rounding is not modelled)
  and zero has no sign (a zero threshold is \<open>+0.0\<close>).
\<close>

datatype pyfloat = Fin real | PInf | NInf | NaN

text \<open>The comparison \<^verbatim>\<open>a < b\<close> of two floats; false as soon as one side is NaN.\<close>

fun flt :: "pyfloat \<Rightarrow> pyfloat \<Rightarrow> bool" where
  "flt (Fin a) (Fin b) = (a < b)"
| "flt (Fin a) PInf = True"
| "flt NInf (Fin b) = True"
| "flt NInf PInf = True"
| "flt _ _ = False"

text \<open>
  The quotient \<^verbatim>\<open>a / b\<close> with a numpy scalar on the left: a zero divisor raises
  nothing and gives an infinity, or NaN for \<^verbatim>\<open>0 / 0\<close>.
\<close>

fun fdiv :: "pyfloat \<Rightarrow> pyfloat \<Rightarrow> pyfloat" where
  "fdiv NaN _ = NaN"
| "fdiv _ NaN = NaN"
| "fdiv (Fin a) (Fin b) =
     (if b = 0 then (if a = 0 then NaN else if 0 < a then PInf else NInf)
      else Fin (a / b))"
| "fdiv (Fin a) PInf = Fin 0"
| "fdiv (Fin a) NInf = Fin 0"
| "fdiv PInf (Fin b) = (if 0 \<le> b then PInf else NInf)"
| "fdiv NInf (Fin b) = (if 0 \<le> b then NInf else PInf)"
| "fdiv PInf PInf = NaN"
| "fdiv PInf NInf = NaN"
| "fdiv NInf PInf = NaN"
| "fdiv NInf NInf = NaN"

text \<open>The difference \<^verbatim>\<open>a - b\<close>.\<close>

fun fsub :: "pyfloat \<Rightarrow> pyfloat \<Rightarrow> pyfloat" where
  "fsub NaN _ = NaN"
| "fsub _ NaN = NaN"
| "fsub (Fin a) (Fin b) = Fin (a - b)"
| "fsub (Fin a) PInf = NInf"
| "fsub (Fin a) NInf = PInf"
| "fsub PInf (Fin b) = PInf"
| "fsub NInf (Fin b) = NInf"
| "fsub PInf PInf = NaN"
| "fsub PInf NInf = PInf"
| "fsub NInf PInf = NInf"
| "fsub NInf NInf = NaN"

text \<open>
  Python's builtins \<^verbatim>\<open>min(a, b)\<close> and \<^verbatim>\<open>max(a, b)\<close>: the first argument is
  kept unless the second is strictly smaller (strictly greater).
\<close>

definition py_min :: "pyfloat \<Rightarrow> pyfloat \<Rightarrow> pyfloat" where
  "py_min a b = (if flt b a then b else a)"

definition py_max :: "pyfloat \<Rightarrow> pyfloat \<Rightarrow> pyfloat" where
  "py_max a b = (if flt a b then b else a)"

subsection \<open>The table and the store\<close>

type_synonym encoding = "real list"
type_synonym image = "nat list"
type_synonym timestamp = nat

text \<open>
  A row of \<^verbatim>\<open>facial_templates\<close>. The blob written by \<^verbatim>\<open>tobytes()\<close> and read back by
  \<^verbatim>\<open>np.frombuffer\<close> is the vector itself.
\<close>

record template_row =
  fan_id :: string
  encoding :: encoding
  created_at :: timestamp
  updated_at :: timestamp

text \<open>
  The store: the rows of the table, and the number of connections that were opened by
  \<^verbatim>\<open>sqlite3.connect\<close> and not yet closed by \<^verbatim>\<open>conn.close()\<close>.
\<close>

record store =
  facial_templates :: "template_row list"
  open_connections :: nat

text \<open>\<^verbatim>\<open>fan_id TEXT PRIMARY KEY\<close>: no two rows carry the same identifier.\<close>

definition primary_key :: "store \<Rightarrow> bool" where
  "primary_key st = distinct (map fan_id (facial_templates st))"

text \<open>The rows of one identifier.\<close>

definition rows_of :: "string \<Rightarrow> template_row list \<Rightarrow> template_row list" where
  "rows_of f rows = filter (\<lambda>r. fan_id r = f) rows"

text \<open>
  \<^verbatim>\<open>INSERT OR REPLACE INTO facial_templates (fan_id, encoding, updated_at) VALUES (?, ?, ?)\<close>:
  the rows in conflict on the primary key are deleted and a new row is inserted; its
  \<^verbatim>\<open>created_at\<close>, absent from the column list, takes the column default
  \<^verbatim>\<open>CURRENT_TIMESTAMP\<close>.
\<close>

definition insert_or_replace ::
  "timestamp \<Rightarrow> string \<Rightarrow> encoding \<Rightarrow> timestamp \<Rightarrow> template_row list \<Rightarrow> template_row list" where
  "insert_or_replace current_timestamp f e u rows =
     filter (\<lambda>r. fan_id r \<noteq> f) rows
       @ [\<lparr>fan_id = f, encoding = e, created_at = current_timestamp, updated_at = u\<rparr>]"

text \<open>\<^verbatim>\<open>SELECT encoding FROM facial_templates WHERE fan_id = ?\<close> with \<^verbatim>\<open>fetchone()\<close>.\<close>

definition select_encoding :: "string \<Rightarrow> template_row list \<Rightarrow> encoding option" where
  "select_encoding f rows = map_option encoding (find (\<lambda>r. fan_id r = f) rows)"

text \<open>\<^verbatim>\<open>DELETE FROM facial_templates WHERE fan_id = ?\<close> and its \<^verbatim>\<open>rowcount\<close>.\<close>

definition delete_rows :: "string \<Rightarrow> template_row list \<Rightarrow> template_row list" where
  "delete_rows f rows = filter (\<lambda>r. fan_id r \<noteq> f) rows"

definition rowcount :: "string \<Rightarrow> template_row list \<Rightarrow> nat" where
  "rowcount f rows = length (rows_of f rows)"

subsection \<open>Requests, responses and the surroundings of a call\<close>

text \<open>
  \<^verbatim>\<open>request.json\<close>: \<open>None\<close> is a body that Python takes as false (no JSON, or an
  empty object); otherwise an object whose keys \<^verbatim>\<open>fan_id\<close> and \<^verbatim>\<open>image\<close> are
  absent (\<open>None\<close>, what \<^verbatim>\<open>data.get\<close> returns) or hold a string.
\<close>

record json_data =
  data_fan_id :: "string option"
  data_image :: "string option"

type_synonym request = "json_data option"

datatype jvalue = JBool bool | JStr string | JNum pyfloat

record response =
  status :: nat
  body :: "(string \<times> jvalue) list"

text \<open>
  A storage call that raises. At most one of the calls of a handler raises:
  \<^verbatim>\<open>sqlite3.connect\<close>, \<^verbatim>\<open>cursor.execute\<close> or \<^verbatim>\<open>conn.commit\<close>.
\<close>

datatype db_fault = NoFault | ConnectRaises | ExecuteRaises | CommitRaises

text \<open>
  What a call depends on besides the request and the store: the recognition library
  (\<open>decode_image\<close> is \<^verbatim>\<open>base64.b64decode\<close> followed by \<^verbatim>\<open>load_image_file\<close>, \<open>None\<close>
  when either raises; \<open>face_encodings\<close> is \<open>None\<close> when the extractor raises;
  \<open>face_distance a b\<close> is \<^verbatim>\<open>face_recognition.face_distance([a], b)[0]\<close>, an element
  of a numpy array), the configured threshold, the two clocks
  (\<^verbatim>\<open>datetime.utcnow()\<close> of the process and \<^verbatim>\<open>CURRENT_TIMESTAMP\<close> of the store) and the
  storage fault of this call.
\<close>

record env =
  decode_image :: "string \<Rightarrow> image option"
  face_encodings :: "image \<Rightarrow> encoding list option"
  face_distance :: "encoding \<Rightarrow> encoding \<Rightarrow> pyfloat"
  SIMILARITY_THRESHOLD :: pyfloat
  utcnow :: timestamp
  CURRENT_TIMESTAMP :: timestamp
  db_fault :: db_fault

text \<open>
  The values a handler hands to \<^verbatim>\<open>jsonify\<close>. Python's own \<^verbatim>\<open>bool\<close>, \<^verbatim>\<open>str\<close> and
  \<^verbatim>\<open>float\<close> are serialised. A comparison with a numpy scalar gives a \<^verbatim>\<open>numpy.bool_\<close>,
  which is no \<^verbatim>\<open>bool\<close>: the encoder raises \<^verbatim>\<open>TypeError\<close> on it (\<open>None\<close>).
\<close>

datatype pyvalue = PyBool bool | PyStr string | PyFloat pyfloat | NumpyBool bool

fun to_json :: "pyvalue \<Rightarrow> jvalue option" where
  "to_json (PyBool b) = Some (JBool b)"
| "to_json (PyStr s) = Some (JStr s)"
| "to_json (PyFloat x) = Some (JNum x)"
| "to_json (NumpyBool b) = None"

fun jsonify :: "(string \<times> pyvalue) list \<Rightarrow> (string \<times> jvalue) list option" where
  "jsonify [] = Some []"
| "jsonify ((k, v) # kvs) =
     (case to_json v of
        None \<Rightarrow> None
      | Some j \<Rightarrow> (case jsonify kvs of None \<Rightarrow> None | Some js \<Rightarrow> Some ((k, j) # js)))"

text \<open>\<^verbatim>\<open>not x\<close> for a value that is \<^verbatim>\<open>None\<close> or a string.\<close>

definition falsy :: "string option \<Rightarrow> bool" where
  "falsy x = (case x of None \<Rightarrow> True | Some s \<Rightarrow> s = [])"

definition error_response :: "nat \<Rightarrow> string \<Rightarrow> response" where
  "error_response code msg = \<lparr>status = code, body = [(''error'', JStr msg)]\<rparr>"

text \<open>
  The outer \<^verbatim>\<open>except Exception\<close> of every handler; the text of the exception, which
  follows the prefix in the message, is left out.
\<close>

definition internal_error :: response where
  "internal_error = error_response 500 ''Internal server error''"

definition get_db_connection :: "store \<Rightarrow> store" where
  "get_db_connection st = st\<lparr>open_connections := open_connections st + 1\<rparr>"

definition close :: "store \<Rightarrow> store" where
  "close st = st\<lparr>open_connections := open_connections st - 1\<rparr>"

section \<open>The handlers\<close>

definition health_check :: response where
  "health_check =
     \<lparr>status = 200,
      body = [(''status'', JStr ''healthy''),
              (''service'', JStr ''facial-recognition-service''),
              (''version'', JStr ''1.0.0'')]\<rparr>"

text \<open>
  \<^verbatim>\<open>register_face\<close>, from the insertion on. A statement changes the table only once
  \<^verbatim>\<open>commit\<close> has returned; a call that raises leaves the handler through the outer
  \<^verbatim>\<open>except\<close>, past \<^verbatim>\<open>conn.close()\<close>.
\<close>

definition register_store :: "env \<Rightarrow> string \<Rightarrow> encoding \<Rightarrow> store \<Rightarrow> response \<times> store" where
  "register_store ev f encoding_bytes st =
     (if db_fault ev = ConnectRaises then (internal_error, st)
      else let conn = get_db_connection st in
        if db_fault ev = ExecuteRaises then (internal_error, conn)
        else if db_fault ev = CommitRaises then (internal_error, conn)
        else
          (\<lparr>status = 200,
            body = [(''success'', JBool True), (''fan_id'', JStr f),
                    (''message'', JStr ''Face template registered successfully'')]\<rparr>,
           close (conn\<lparr>facial_templates :=
             insert_or_replace (CURRENT_TIMESTAMP ev) f encoding_bytes (utcnow ev)
               (facial_templates conn)\<rparr>)))"

definition register_face :: "env \<Rightarrow> request \<Rightarrow> store \<Rightarrow> response \<times> store" where
  "register_face ev req st =
     (case req of
        None \<Rightarrow> (error_response 400 ''No JSON data provided'', st)
      | Some data \<Rightarrow>
          if falsy (data_fan_id data) then (error_response 400 ''fan_id is required'', st)
          else if falsy (data_image data) then (error_response 400 ''image is required'', st)
          else
            (case decode_image ev (the (data_image data)) of
               None \<Rightarrow> (error_response 400 ''Invalid image format'', st)
             | Some img \<Rightarrow>
                 (case face_encodings ev img of
                    None \<Rightarrow> (internal_error, st)
                  | Some encodings \<Rightarrow>
                      if encodings = [] then
                        (error_response 400 ''No face detected in image'', st)
                      else if length encodings > 1 then
                        (error_response 400
                           ''Multiple faces detected. Please provide image with single face'', st)
                      else register_store ev (the (data_fan_id data)) (hd encodings) st)))"

text \<open>The two lines of \<^verbatim>\<open>verify_face\<close> that compute the decision and the score.\<close>

definition is_match :: "pyfloat \<Rightarrow> pyfloat \<Rightarrow> bool" where
  "is_match distance threshold = flt distance threshold"

definition confidence :: "pyfloat \<Rightarrow> pyfloat \<Rightarrow> pyfloat" where
  "confidence distance threshold =
     py_max (Fin 0) (py_min (Fin 1) (fsub (Fin 1) (fdiv distance threshold)))"

text \<open>
  \<^verbatim>\<open>verify_face\<close>, once the stored encoding has been read and the connection closed.
  In the answer of a comparison \<^verbatim>\<open>confidence\<close> and \<^verbatim>\<open>distance\<close> go through \<^verbatim>\<open>float(...)\<close>,
  \<^verbatim>\<open>is_match\<close> goes to \<^verbatim>\<open>jsonify\<close> as the comparison returned it; what \<^verbatim>\<open>jsonify\<close> raises
  is caught by the outer \<^verbatim>\<open>except\<close>. The other bodies hold Python's own values only.
\<close>

definition verify_image :: "env \<Rightarrow> string \<Rightarrow> string \<Rightarrow> encoding \<Rightarrow> response" where
  "verify_image ev f image_base64 stored_encoding =
     (case decode_image ev image_base64 of
        None \<Rightarrow> error_response 400 ''Invalid image format''
      | Some img \<Rightarrow>
          (case face_encodings ev img of
             None \<Rightarrow> internal_error
           | Some encodings \<Rightarrow>
               if encodings = [] then
                 \<lparr>status = 200,
                  body = [(''success'', JBool True), (''fan_id'', JStr f),
                          (''confidence_score'', JNum (Fin 0)), (''is_match'', JBool False),
                          (''distance'', JNum (Fin 1)),
                          (''message'', JStr ''No face detected in image'')]\<rparr>
               else if length encodings > 1 then
                 error_response 400
                   ''Multiple faces detected. Please provide image with single face''
               else
                 let distance = face_distance ev stored_encoding (hd encodings) in
                 (case jsonify
                    [(''success'', PyBool True), (''fan_id'', PyStr f),
                     (''confidence_score'',
                        PyFloat (confidence distance (SIMILARITY_THRESHOLD ev))),
                     (''is_match'', NumpyBool (is_match distance (SIMILARITY_THRESHOLD ev))),
                     (''distance'', PyFloat distance),
                     (''threshold'', PyFloat (SIMILARITY_THRESHOLD ev))] of
                    None \<Rightarrow> internal_error
                  | Some js \<Rightarrow> \<lparr>status = 200, body = js\<rparr>)))"

definition verify_face :: "env \<Rightarrow> request \<Rightarrow> store \<Rightarrow> response \<times> store" where
  "verify_face ev req st =
     (case req of
        None \<Rightarrow> (error_response 400 ''No JSON data provided'', st)
      | Some data \<Rightarrow>
          if falsy (data_fan_id data) then (error_response 400 ''fan_id is required'', st)
          else if falsy (data_image data) then (error_response 400 ''image is required'', st)
          else if db_fault ev = ConnectRaises then (internal_error, st)
          else let conn = get_db_connection st in
            if db_fault ev = ExecuteRaises then (internal_error, conn)
            else
              (case select_encoding (the (data_fan_id data)) (facial_templates conn) of
                 None \<Rightarrow> (error_response 404 ''Face not registered for this fan_id'', close conn)
               | Some stored_encoding \<Rightarrow>
                   (verify_image ev (the (data_fan_id data)) (the (data_image data))
                      stored_encoding,
                    close conn)))"

definition delete_face :: "env \<Rightarrow> string \<Rightarrow> store \<Rightarrow> response \<times> store" where
  "delete_face ev f st =
     (if db_fault ev = ConnectRaises then (internal_error, st)
      else let conn = get_db_connection st in
        if db_fault ev = ExecuteRaises then (internal_error, conn)
        else if db_fault ev = CommitRaises then (internal_error, conn)
        else
          let deleted = rowcount f (facial_templates conn);
              st' = close (conn\<lparr>facial_templates := delete_rows f (facial_templates conn)\<rparr>)
          in if deleted = 0 then (error_response 404 ''Face template not found'', st')
             else
               (\<lparr>status = 200,
                 body = [(''success'', JBool True), (''fan_id'', JStr f),
                         (''message'', JStr ''Face template deleted successfully'')]\<rparr>,
                st'))"

text \<open>The routes of the application.\<close>

datatype api_call =
  Health
| Register request
| Verify request
| Delete string

fun app :: "env \<Rightarrow> api_call \<Rightarrow> store \<Rightarrow> response \<times> store" where
  "app ev Health st = (health_check, st)"
| "app ev (Register req) st = register_face ev req st"
| "app ev (Verify req) st = verify_face ev req st"
| "app ev (Delete f) st = delete_face ev f st"

text \<open>The names of the fields of a body.\<close>

definition field_names :: "response \<Rightarrow> string set" where
  "field_names r = set (map fst (body r))"

section \<open>The specification's formula and the inputs of the examples\<close>

text \<open>
  The specification scores a comparison as \<^verbatim>\<open>clamp(1 - distance/threshold, 0, 1)\<close>:
  \<open>clamp x lo hi\<close> is \<open>x\<close> limited to the interval from \<open>lo\<close> to \<open>hi\<close>.
\<close>

definition clamp :: "pyfloat \<Rightarrow> pyfloat \<Rightarrow> pyfloat \<Rightarrow> pyfloat" where
  "clamp x lo hi = (if flt x lo then lo else if flt x hi then x else hi)"

text \<open>
  An extractor that finds one face in the image \<^verbatim>\<open>one\<close>, none in \<^verbatim>\<open>none\<close> and two in
  \<^verbatim>\<open>two\<close>, with the threshold 0.6 of the source, and a table of one row.
\<close>

definition example_env :: env where
  "example_env =
     \<lparr>decode_image = (\<lambda>s. if s = ''one'' then Some [1] else if s = ''none'' then Some []
                           else if s = ''two'' then Some [1, 1] else None),
      face_encodings = (\<lambda>img. Some (map (\<lambda>p. [real p * 0.3]) img)),
      face_distance = (\<lambda>a b. Fin \<bar>hd a - hd b\<bar>),
      SIMILARITY_THRESHOLD = Fin 0.6,
      utcnow = 5, CURRENT_TIMESTAMP = 5, db_fault = NoFault\<rparr>"

definition example_store :: store where
  "example_store =
     \<lparr>facial_templates = [\<lparr>fan_id = ''a'', encoding = [0], created_at = 1, updated_at = 1\<rparr>],
      open_connections = 0\<rparr>"

definition example_request :: "string \<Rightarrow> string \<Rightarrow> request" where
  "example_request f b = Some \<lparr>data_fan_id = Some f, data_image = Some b\<rparr>"

text \<open>The same surroundings with a storage call that raises.\<close>

definition faulty_env :: "db_fault \<Rightarrow> env" where
  "faulty_env x = example_env\<lparr>db_fault := x\<rparr>"


section \<open>Lookups in the table\<close>

lemma find_primary_key:
  "distinct (map fan_id rows) \<Longrightarrow> r \<in> set rows \<Longrightarrow> find (\<lambda>x. fan_id x = fan_id r) rows = Some r"
  by (induction rows) (auto simp: image_iff)

lemma select_encoding_stored:
  "primary_key st \<Longrightarrow> r \<in> set (facial_templates st) \<Longrightarrow>
   select_encoding (fan_id r) (facial_templates st) = Some (encoding r)"
  by (simp add: select_encoding_def primary_key_def find_primary_key)

lemma select_encoding_absent:
  "f \<notin> fan_id ` set rows \<Longrightarrow> select_encoding f rows = None"
  by (auto simp: select_encoding_def find_None_iff)

lemma select_encoding_present:
  "f \<in> fan_id ` set rows \<Longrightarrow> \<exists>e. select_encoding f rows = Some e"
  by (cases "find (\<lambda>r. fan_id r = f) rows") (auto simp: select_encoding_def find_None_iff)

text \<open>The score of the source is the specification's \<open>clamp\<close>, special values included.\<close>

lemma confidence_clamp:
  "confidence d t = clamp (fsub (Fin 1) (fdiv d t)) (Fin 0) (Fin 1)"
  by (cases "fsub (Fin 1) (fdiv d t)") (auto simp: confidence_def clamp_def py_min_def py_max_def)

section \<open>Health\<close>

text \<open>
  Claim C8. Whatever the store holds, a health request answers 200 with exactly the
  fields status, service and version, each a constant, and the store is neither read nor
  changed: the answer is the same for every store and environment.
\<close>

theorem health_check_fixed:
  "app ev Health st =
     (\<lparr>status = 200,
       body = [(''status'', JStr ''healthy''),
               (''service'', JStr ''facial-recognition-service''),
               (''version'', JStr ''1.0.0'')]\<rparr>, st)
   \<and> field_names (fst (app ev Health st)) = {''status'', ''service'', ''version''}"
  by (auto simp add: health_check_def field_names_def)

section \<open>Verification\<close>

text \<open>
  Claim C7. For every verify request, every environment (storage faults included) and
  every store, the table after the request is the table before it: verify only reads.
\<close>

theorem verify_never_writes:
  "facial_templates (snd (verify_face ev req st)) = facial_templates st"
  by (simp add: verify_face_def get_db_connection_def close_def Let_def split: option.splits)

text \<open>
  A verify request that reaches the comparison: non-empty fields, a stored row, an image
  that decodes to exactly one face encoding, no storage call raising. The body handed
  to \<^verbatim>\<open>jsonify\<close> holds the \<^verbatim>\<open>numpy.bool_\<close> of the comparison, so the answer is the 500 of
  the outer \<^verbatim>\<open>except\<close>, whatever the distance and the threshold are.
\<close>

lemma verify_single_face_raises:
  assumes "req = Some \<lparr>data_fan_id = Some f, data_image = Some b\<rparr>" "f \<noteq> []" "b \<noteq> []"
    and "db_fault ev = NoFault"
    and "f \<in> fan_id ` set (facial_templates st)"
    and "decode_image ev b = Some img" "face_encodings ev img = Some [probe]"
  shows "fst (verify_face ev req st) = internal_error"
proof -
  obtain e where "select_encoding f (facial_templates st) = Some e"
    using assms(5) select_encoding_present by blast
  then show ?thesis
    using assms(1-4,6,7)
    by (simp add: verify_face_def verify_image_def falsy_def get_db_connection_def Let_def)
qed

text \<open>
  Claim C1 asks that a verify request whose identifier has a stored template and whose
  image yields exactly one face encoding be answered 200 with is_match, confidence_score,
  distance and threshold. For the stored identifier \<^verbatim>\<open>a\<close> and the image \<^verbatim>\<open>one\<close>, at
  distance 0.3 under the threshold 0.6, the decision computed is a match with score 0.5,
  and the answer is 500 with the single field error.
\<close>

theorem verify_single_face_answers_500:
  "face_distance example_env [0] [0.3] = Fin 0.3
   \<and> is_match (Fin 0.3) (SIMILARITY_THRESHOLD example_env)
   \<and> confidence (Fin 0.3) (SIMILARITY_THRESHOLD example_env) = Fin 0.5
   \<and> status (fst (verify_face example_env (example_request ''a'' ''one'') example_store)) = 500
   \<and> body (fst (verify_face example_env (example_request ''a'' ''one'') example_store))
       = [(''error'', JStr ''Internal server error'')]"
  by (simp add: example_env_def example_request_def example_store_def verify_face_def
      verify_image_def falsy_def get_db_connection_def select_encoding_def Let_def
      internal_error_def error_response_def is_match_def confidence_def py_min_def py_max_def)

text \<open>
  Claim C9. The lookup comes before the image is decoded: a verify request with
  non-empty fan_id and image whose identifier has no row is answered 404 (when no storage
  call raises), whatever the decoder and the extractor would do with the image.
\<close>

theorem verify_unregistered:
  assumes "req = Some \<lparr>data_fan_id = Some f, data_image = Some b\<rparr>" "f \<noteq> []" "b \<noteq> []"
    and "db_fault ev = NoFault"
    and "f \<notin> fan_id ` set (facial_templates st)"
  shows "fst (verify_face ev req st) = error_response 404 ''Face not registered for this fan_id''
     \<and> status (fst (verify_face ev req st)) = 404"
  using assms
  by (simp add: verify_face_def falsy_def get_db_connection_def Let_def select_encoding_absent
      error_response_def)

theorem verify_unregistered_witness:
  "status (fst (verify_face example_env (example_request ''b'' ''undecodable'') example_store)) = 404"
  using verify_unregistered [of "example_request ''b'' ''undecodable''" "''b''" "''undecodable''"
      example_env example_store]
  by (simp add: example_env_def example_request_def example_store_def error_response_def)

subsection \<open>Match and confidence\<close>

lemma positive_threshold:
  assumes "flt (Fin 0) t"
  shows "is_match (Fin d) t \<longleftrightarrow> flt (Fin 0) (confidence (Fin d) t)"
proof (cases t)
  case (Fin r)
  with assms have r: "0 < r" by simp
  show ?thesis
  proof (cases "d < r")
    case True
    with r have "d / r < 1" by simp
    with True r Fin show ?thesis
      by (simp add: is_match_def confidence_def py_min_def py_max_def)
  next
    case False
    with r have "1 \<le> d / r" by simp
    with False r Fin show ?thesis
      by (simp add: is_match_def confidence_def py_min_def py_max_def)
  qed
qed (use assms in \<open>simp_all add: is_match_def confidence_def py_min_def py_max_def\<close>)

lemma distance_at_threshold:
  assumes "flt (Fin 0) t" "Fin d = t"
  shows "\<not> is_match (Fin d) t \<and> confidence (Fin d) t = Fin 0"
  using assms by (auto simp: is_match_def confidence_def py_min_def py_max_def)


subsection \<open>An image without a face\<close>

text \<open>
  Claim C2, as the source has it. A verify request with non-empty fields, whose
  identifier has a stored row and whose image decodes to no face encoding, is answered
  (when no storage call raises) with status 200, is_match = false, distance = 1.0 and
  confidence_score = 0.0; the fields of the body are success, fan_id, confidence_score,
  is_match, distance and message, without a threshold.
\<close>

theorem verify_no_face:
  assumes "req = Some \<lparr>data_fan_id = Some f, data_image = Some b\<rparr>" "f \<noteq> []" "b \<noteq> []"
    and "db_fault ev = NoFault"
    and "f \<in> fan_id ` set (facial_templates st)"
    and "decode_image ev b = Some img" "face_encodings ev img = Some []"
  shows "fst (verify_face ev req st) =
     \<lparr>status = 200,
      body = [(''success'', JBool True), (''fan_id'', JStr f),
              (''confidence_score'', JNum (Fin 0)), (''is_match'', JBool False),
              (''distance'', JNum (Fin 1)),
              (''message'', JStr ''No face detected in image'')]\<rparr>
   \<and> field_names (fst (verify_face ev req st)) =
       {''success'', ''fan_id'', ''confidence_score'', ''is_match'', ''distance'', ''message''}"
proof -
  obtain e where "select_encoding f (facial_templates st) = Some e"
    using assms(5) select_encoding_present by blast
  then have "fst (verify_face ev req st) =
     \<lparr>status = 200,
      body = [(''success'', JBool True), (''fan_id'', JStr f),
              (''confidence_score'', JNum (Fin 0)), (''is_match'', JBool False),
              (''distance'', JNum (Fin 1)),
              (''message'', JStr ''No face detected in image'')]\<rparr>"
    using assms(1-4,6,7)
    by (simp add: verify_face_def verify_image_def falsy_def get_db_connection_def Let_def)
  then show ?thesis by (simp add: field_names_def)
qed

theorem verify_no_face_witness:
  "field_names (fst (verify_face example_env (example_request ''a'' ''none'') example_store)) =
     {''success'', ''fan_id'', ''confidence_score'', ''is_match'', ''distance'', ''message''}"
  using verify_no_face [of "example_request ''a'' ''none''" "''a''" "''none''" example_env
      example_store "[]"]
  by (simp add: example_env_def example_request_def example_store_def field_names_def)

text \<open>
  Claim C2 as stated asks for the fields success, fan_id, confidence_score, is_match,
  distance and threshold. For the stored identifier \<^verbatim>\<open>a\<close> and an image without a face
  the answer is 200 and has no threshold.
\<close>

theorem verify_no_face_shape_counterexample:
  "status (fst (verify_face example_env (example_request ''a'' ''none'') example_store)) = 200
   \<and> ''threshold'' \<notin> field_names (fst (verify_face example_env (example_request ''a'' ''none'')
         example_store))
   \<and> field_names (fst (verify_face example_env (example_request ''a'' ''none'') example_store))
       \<noteq> {''success'', ''fan_id'', ''confidence_score'', ''is_match'', ''distance'',
           ''threshold''}"
proof -
  have ok: "status (fst (verify_face example_env (example_request ''a'' ''none'')
      example_store)) = 200"
    and absent: "''threshold'' \<notin> field_names (fst (verify_face example_env
      (example_request ''a'' ''none'') example_store))"
    by (simp_all add: example_env_def example_request_def example_store_def verify_face_def
        verify_image_def falsy_def get_db_connection_def select_encoding_def field_names_def
        Let_def)
  have differ: "field_names (fst (verify_face example_env (example_request ''a'' ''none'')
      example_store))
       \<noteq> {''success'', ''fan_id'', ''confidence_score'', ''is_match'', ''distance'',
           ''threshold''}"
  proof
    assume eq: "field_names (fst (verify_face example_env (example_request ''a'' ''none'')
      example_store))
       = {''success'', ''fan_id'', ''confidence_score'', ''is_match'', ''distance'',
           ''threshold''}"
    have "''threshold'' \<in> field_names (fst (verify_face example_env
      (example_request ''a'' ''none'') example_store))"
      unfolding eq by simp
    with absent show False ..
  qed
  from ok absent differ show ?thesis
    by (intro conjI)
qed

section \<open>Registration\<close>

text \<open>
  Claim C5. A register request whose image decodes and yields no encoding, or more than
  one, is answered 400 and the store is left as it was; a verify request on a stored
  identifier whose image yields more than one encoding is answered 400 (when no storage
  call raises).
\<close>

theorem wrong_face_count_rejected:
  assumes "req = Some data" "data_image data = Some b"
    and "decode_image ev b = Some img" "face_encodings ev img = Some encodings"
  shows "(length encodings \<noteq> 1 \<longrightarrow>
            status (fst (register_face ev req st)) = 400 \<and> snd (register_face ev req st) = st)
       \<and> (1 < length encodings \<and> db_fault ev = NoFault \<and> data_fan_id data = Some f
             \<and> f \<in> fan_id ` set (facial_templates st) \<longrightarrow>
            status (fst (verify_face ev req st)) = 400)"
proof -
  have "status (fst (register_face ev req st)) = 400 \<and> snd (register_face ev req st) = st"
    if "length encodings \<noteq> 1"
  proof -
    from that have "encodings = [] \<or> 1 < length encodings"
      by (cases encodings) auto
    then show ?thesis
      using assms by (auto simp: register_face_def error_response_def)
  qed
  moreover have "status (fst (verify_face ev req st)) = 400"
    if h: "1 < length encodings \<and> db_fault ev = NoFault \<and> data_fan_id data = Some f
      \<and> f \<in> fan_id ` set (facial_templates st)"
  proof -
    obtain e where "select_encoding f (facial_templates st) = Some e"
      using h select_encoding_present by blast
    then show ?thesis
      using assms h
      by (auto simp: verify_face_def verify_image_def error_response_def get_db_connection_def
          Let_def)
  qed
  ultimately show ?thesis by blast
qed

theorem wrong_face_count_rejected_witness:
  "status (fst (register_face example_env (example_request ''c'' ''none'') example_store)) = 400
   \<and> snd (register_face example_env (example_request ''c'' ''none'') example_store)
       = example_store
   \<and> status (fst (register_face example_env (example_request ''c'' ''two'') example_store)) = 400
   \<and> snd (register_face example_env (example_request ''c'' ''two'') example_store)
       = example_store
   \<and> status (fst (verify_face example_env (example_request ''a'' ''two'') example_store)) = 400"
  using wrong_face_count_rejected [of "example_request ''c'' ''none''"
      "\<lparr>data_fan_id = Some ''c'', data_image = Some ''none''\<rparr>" "''none''" example_env "[]" "[]"
      example_store "''c''"]
    wrong_face_count_rejected [of "example_request ''c'' ''two''"
      "\<lparr>data_fan_id = Some ''c'', data_image = Some ''two''\<rparr>" "''two''" example_env "[1, 1]"
      "[[0.3], [0.3]]" example_store "''c''"]
    wrong_face_count_rejected [of "example_request ''a'' ''two''"
      "\<lparr>data_fan_id = Some ''a'', data_image = Some ''two''\<rparr>" "''two''" example_env "[1, 1]"
      "[[0.3], [0.3]]" example_store "''a''"]
  by (simp add: example_env_def example_request_def example_store_def)

subsection \<open>Registering an identifier again\<close>

lemma rows_of_insert_same:
  "rows_of f (insert_or_replace c f e u rows) =
     [\<lparr>fan_id = f, encoding = e, created_at = c, updated_at = u\<rparr>]"
  by (induction rows) (auto simp: rows_of_def insert_or_replace_def)

lemma rows_of_insert_other:
  "g \<noteq> f \<Longrightarrow> rows_of g (insert_or_replace c f e u rows) = rows_of g rows"
  by (induction rows) (auto simp: rows_of_def insert_or_replace_def)

lemma distinct_insert_or_replace:
  "distinct (map fan_id rows) \<Longrightarrow> distinct (map fan_id (insert_or_replace c f e u rows))"
  by (auto simp: insert_or_replace_def distinct_map_filter)

lemma register_face_ok:
  assumes "req = Some \<lparr>data_fan_id = Some f, data_image = Some b\<rparr>"
    and "decode_image ev b = Some img" "face_encodings ev img = Some [e]"
    and "status (fst (register_face ev req st)) = 200"
  shows "snd (register_face ev req st) =
     st\<lparr>facial_templates :=
          insert_or_replace (CURRENT_TIMESTAMP ev) f e (utcnow ev) (facial_templates st)\<rparr>"
  using assms
  by (auto simp: register_face_def register_store_def falsy_def get_db_connection_def
      close_def Let_def internal_error_def error_response_def split: if_splits)

text \<open>
  What a successful register does to an identifier that already has a row: exactly one
  row is left for it, with the new encoding and the new update timestamp; the primary
  key still holds and the rows of every other identifier are as before. The creation
  timestamp of the row is the store's clock at this registration, whatever it was.
\<close>

lemma register_again_overwrites:
  assumes "req = Some \<lparr>data_fan_id = Some f, data_image = Some b\<rparr>"
    and "decode_image ev b = Some img" "face_encodings ev img = Some [e]"
    and "status (fst (register_face ev req st)) = 200"
    and "primary_key st" "f \<in> fan_id ` set (facial_templates st)"
  shows "map encoding (rows_of f (facial_templates (snd (register_face ev req st)))) = [e]
       \<and> map updated_at (rows_of f (facial_templates (snd (register_face ev req st))))
           = [utcnow ev]
       \<and> primary_key (snd (register_face ev req st))
       \<and> (\<forall>g. g \<noteq> f \<longrightarrow>
            rows_of g (facial_templates (snd (register_face ev req st)))
              = rows_of g (facial_templates st))"
  using assms(5)
  by (simp add: register_face_ok [OF assms(1-4)] rows_of_insert_same rows_of_insert_other
      primary_key_def distinct_insert_or_replace)

lemma register_again_created_at:
  assumes "req = Some \<lparr>data_fan_id = Some f, data_image = Some b\<rparr>"
    and "decode_image ev b = Some img" "face_encodings ev img = Some [e]"
    and "status (fst (register_face ev req st)) = 200"
  shows "map created_at (rows_of f (facial_templates (snd (register_face ev req st))))
           = [CURRENT_TIMESTAMP ev]"
  by (simp add: register_face_ok [OF assms] rows_of_insert_same)

text \<open>
  Claim C3 asks that a second successful register overwrite only the encoding and the
  update timestamp and leave the creation timestamp of the row unchanged. The row of
  \<^verbatim>\<open>a\<close> was created at time 1; a register for \<^verbatim>\<open>a\<close> at time 5 is answered 200, and the
  creation timestamp of the row is then 5.
\<close>

theorem register_again_resets_created_at:
  "status (fst (register_face example_env (example_request ''a'' ''one'') example_store)) = 200
   \<and> map created_at (rows_of ''a'' (facial_templates example_store)) = [1]
   \<and> map created_at (rows_of ''a'' (facial_templates
        (snd (register_face example_env (example_request ''a'' ''one'') example_store)))) = [5]"
  by (simp add: example_env_def example_request_def example_store_def register_face_def
      register_store_def falsy_def get_db_connection_def close_def insert_or_replace_def
      rows_of_def Let_def)

section \<open>Deletion\<close>

lemma rowcount_zero: "rowcount f rows = 0 \<longleftrightarrow> f \<notin> fan_id ` set rows"
  by (auto simp: rowcount_def rows_of_def filter_empty_conv)

lemma delete_rows_absent: "f \<notin> fan_id ` set rows \<Longrightarrow> delete_rows f rows = rows"
  by (induction rows) (auto simp: delete_rows_def)

lemma delete_rows_removed: "f \<notin> fan_id ` set (delete_rows f rows)"
  by (auto simp: delete_rows_def)

lemma delete_face_ok:
  "db_fault ev = NoFault \<Longrightarrow>
   delete_face ev f st =
     (if f \<in> fan_id ` set (facial_templates st) then
        \<lparr>status = 200,
         body = [(''success'', JBool True), (''fan_id'', JStr f),
                 (''message'', JStr ''Face template deleted successfully'')]\<rparr>
      else error_response 404 ''Face template not found'',
      st\<lparr>facial_templates := delete_rows f (facial_templates st)\<rparr>)"
  by (simp add: delete_face_def get_db_connection_def close_def Let_def rowcount_zero)

text \<open>
  Claim C6. When no storage call raises: a delete request for an identifier that has a
  row removes it and is answered 200, and the same request repeated on the resulting
  store is answered 404; a delete request for an identifier without a row is answered 404
  and leaves the store as it was.
\<close>

theorem delete_then_not_found:
  assumes "db_fault ev = NoFault" "db_fault ev' = NoFault"
  shows "(f \<in> fan_id ` set (facial_templates st) \<longrightarrow>
            status (fst (delete_face ev f st)) = 200
          \<and> f \<notin> fan_id ` set (facial_templates (snd (delete_face ev f st)))
          \<and> status (fst (delete_face ev' f (snd (delete_face ev f st)))) = 404)
       \<and> (f \<notin> fan_id ` set (facial_templates st) \<longrightarrow>
            status (fst (delete_face ev f st)) = 404
          \<and> snd (delete_face ev f st) = st)"
  using assms
  by (simp add: delete_face_ok delete_rows_removed delete_rows_absent error_response_def)

theorem delete_then_not_found_witness:
  "status (fst (delete_face example_env ''a'' example_store)) = 200
   \<and> facial_templates (snd (delete_face example_env ''a'' example_store)) = []
   \<and> status (fst (delete_face example_env ''a''
        (snd (delete_face example_env ''a'' example_store)))) = 404
   \<and> status (fst (delete_face example_env ''b'' example_store)) = 404"
  using delete_then_not_found [of example_env example_env "''a''" example_store]
    delete_then_not_found [of example_env example_env "''b''" example_store]
  by (simp add: example_env_def example_store_def delete_face_ok delete_rows_def)

section \<open>Connections\<close>

lemma register_face_connections:
  "db_fault ev \<notin> {ExecuteRaises, CommitRaises} \<or> status (fst (register_face ev req st)) \<noteq> 500
   \<Longrightarrow> open_connections (snd (register_face ev req st)) = open_connections st"
  by (auto simp: register_face_def register_store_def get_db_connection_def close_def Let_def
      internal_error_def error_response_def split: option.splits if_splits)

lemma verify_face_connections:
  "db_fault ev \<notin> {ExecuteRaises, CommitRaises} \<or> status (fst (verify_face ev req st)) \<noteq> 500
   \<Longrightarrow> open_connections (snd (verify_face ev req st)) = open_connections st"
  by (auto simp: verify_face_def get_db_connection_def close_def Let_def
      internal_error_def error_response_def split: option.splits if_splits)

lemma delete_face_connections:
  "db_fault ev \<notin> {ExecuteRaises, CommitRaises} \<or> status (fst (delete_face ev f st)) \<noteq> 500
   \<Longrightarrow> open_connections (snd (delete_face ev f st)) = open_connections st"
  by (auto simp: delete_face_def get_db_connection_def close_def Let_def
      internal_error_def error_response_def split: option.splits if_splits)

text \<open>
  On the paths where neither \<^verbatim>\<open>cursor.execute\<close> nor \<^verbatim>\<open>conn.commit\<close> raises, in
  particular whenever the answer is not a 500, the connection a handler opened is closed
  when it returns.
\<close>

lemma connection_closed_without_storage_fault:
  assumes "db_fault ev \<notin> {ExecuteRaises, CommitRaises} \<or> status (fst (app ev call st)) \<noteq> 500"
  shows "open_connections (snd (app ev call st)) = open_connections st"
  using assms
  by (cases call)
    (simp_all add: register_face_connections verify_face_connections delete_face_connections)

text \<open>
  When \<^verbatim>\<open>cursor.execute\<close> or \<^verbatim>\<open>conn.commit\<close> raises, the handler leaves through its outer
  \<^verbatim>\<open>except\<close>, past \<^verbatim>\<open>conn.close()\<close>: every such delete, and every such register or verify
  that reaches the storage, answers 500 with one more connection open than before.
\<close>

lemma delete_face_leaks:
  assumes "db_fault ev \<in> {ExecuteRaises, CommitRaises}"
  shows "status (fst (delete_face ev f st)) = 500
       \<and> open_connections (snd (delete_face ev f st)) = open_connections st + 1"
  using assms
  by (auto simp: delete_face_def get_db_connection_def Let_def internal_error_def
      error_response_def)

lemma verify_face_leaks:
  assumes "req = Some \<lparr>data_fan_id = Some f, data_image = Some b\<rparr>" "f \<noteq> []" "b \<noteq> []"
    and "db_fault ev = ExecuteRaises"
  shows "status (fst (verify_face ev req st)) = 500
       \<and> open_connections (snd (verify_face ev req st)) = open_connections st + 1"
  using assms
  by (simp add: verify_face_def falsy_def get_db_connection_def Let_def internal_error_def
      error_response_def)

lemma register_face_leaks:
  assumes "req = Some \<lparr>data_fan_id = Some f, data_image = Some b\<rparr>" "f \<noteq> []" "b \<noteq> []"
    and "decode_image ev b = Some img" "face_encodings ev img = Some [e]"
    and "db_fault ev \<in> {ExecuteRaises, CommitRaises}"
  shows "status (fst (register_face ev req st)) = 500
       \<and> open_connections (snd (register_face ev req st)) = open_connections st + 1"
  using assms
  by (auto simp: register_face_def register_store_def falsy_def get_db_connection_def Let_def
      internal_error_def error_response_def)

text \<open>
  Claim C4 asks that every handler release the connection it opened before it returns,
  on the error paths too. With no connection open before: a delete whose
  \<^verbatim>\<open>cursor.execute\<close> raises, a register whose \<^verbatim>\<open>conn.commit\<close> raises and a verify whose
  \<^verbatim>\<open>cursor.execute\<close> raises each answer 500 and leave one connection open.
\<close>

theorem connection_left_open:
  "open_connections example_store = 0
   \<and> status (fst (delete_face (faulty_env ExecuteRaises) ''a'' example_store)) = 500
   \<and> open_connections (snd (delete_face (faulty_env ExecuteRaises) ''a'' example_store)) = 1
   \<and> status (fst (register_face (faulty_env CommitRaises) (example_request ''a'' ''one'')
        example_store)) = 500
   \<and> open_connections (snd (register_face (faulty_env CommitRaises)
        (example_request ''a'' ''one'') example_store)) = 1
   \<and> status (fst (verify_face (faulty_env ExecuteRaises) (example_request ''a'' ''one'')
        example_store)) = 500
   \<and> open_connections (snd (verify_face (faulty_env ExecuteRaises)
        (example_request ''a'' ''one'') example_store)) = 1"
  by (simp add: faulty_env_def example_env_def example_store_def example_request_def
      delete_face_def register_face_def register_store_def verify_face_def falsy_def
      get_db_connection_def internal_error_def error_response_def Let_def)

end
